theory Spec2Isabelle
  imports Main
begin

section \<open>Values of the request layer\<close>

text \<open>
  The handlers of the task tracking system read their input from parsed JSON bodies, query
  strings and the decoded identity token, and they test it with JavaScript's own notions
  of truthiness, emptiness and comparison. The values are therefore modelled as JSON
  values; a property that is absent from an object reads as \<open>None\<close>, which stands for
  \<open>undefined\<close>. A \<open>char\<close> stands for one code unit of a string, so \<open>length\<close> is the
  \<open>.length\<close> of the source. Numbers are the integers.
\<close>

datatype json =
    JNull
  | JBool bool
  | JNum int
  | JStr string
  | JArr "json list"
  | JObj "(string \<times> json) list"

type_synonym jsobj = "(string \<times> json) list"

text \<open>
  \<open>obj.key\<close>: the value bound to the key, or \<open>undefined\<close>. The keys of a parsed object
  are distinct.
\<close>

definition js_prop :: "jsobj \<Rightarrow> string \<Rightarrow> json option" where
  "js_prop obj key = map_of obj key"

text \<open>The condition of an \<open>if\<close>, of \<open>!\<close>, \<open>&&\<close> and \<open>||\<close>.\<close>

fun js_truthy :: "json option \<Rightarrow> bool" where
  "js_truthy None = False"
| "js_truthy (Some JNull) = False"
| "js_truthy (Some (JBool b)) = b"
| "js_truthy (Some (JNum n)) = (n \<noteq> 0)"
| "js_truthy (Some (JStr s)) = (s \<noteq> [])"
| "js_truthy (Some (JArr xs)) = True"
| "js_truthy (Some (JObj kvs)) = True"

text \<open>A number as JavaScript computes with it: a value or \<open>NaN\<close>.\<close>

datatype jsnum = NaN | Num int

text \<open>\<open>a < b\<close> and \<open>a > b\<close> on numbers: false as soon as one side is \<open>NaN\<close>.\<close>

fun js_lt :: "jsnum \<Rightarrow> jsnum \<Rightarrow> bool" where
  "js_lt (Num a) (Num b) = (a < b)"
| "js_lt _ _ = False"

definition js_gt :: "jsnum \<Rightarrow> jsnum \<Rightarrow> bool" where
  "js_gt a b = js_lt b a"

fun js_isNaN :: "jsnum \<Rightarrow> bool" where
  "js_isNaN NaN = True"
| "js_isNaN (Num n) = False"

text \<open>\<open>a - b\<close> on numbers.\<close>

fun js_minus :: "jsnum \<Rightarrow> jsnum \<Rightarrow> jsnum" where
  "js_minus (Num a) (Num b) = Num (a - b)"
| "js_minus _ _ = NaN"

subsection \<open>Strings\<close>

text \<open>The white space and line terminators that \<open>trim\<close> and \<open>Number\<close> strip.\<close>

definition js_is_space :: "char \<Rightarrow> bool" where
  "js_is_space c = (c \<in> set [CHR 0x09, CHR 0x0A, CHR 0x0B, CHR 0x0C, CHR 0x0D, CHR 0x20, CHR 0xA0])"

definition js_trim :: "string \<Rightarrow> string" where
  "js_trim s = rev (dropWhile js_is_space (rev (dropWhile js_is_space s)))"

text \<open>\<open>s.split("-")\<close>: the pieces between the separators, at least one piece.\<close>

fun js_split :: "char \<Rightarrow> string \<Rightarrow> string list" where
  "js_split sep [] = [[]]"
| "js_split sep (c # cs) =
     (if c = sep then [] # js_split sep cs
      else (case js_split sep cs of
              [] \<Rightarrow> [[c]]
            | p # ps \<Rightarrow> (c # p) # ps))"

definition is_digit :: "char \<Rightarrow> bool" where
  "is_digit c = (48 \<le> (of_char c :: nat) \<and> (of_char c :: nat) \<le> 57)"

definition digit_value :: "char \<Rightarrow> int" where
  "digit_value c = int (of_char c) - 48"

definition decimal_value :: "string \<Rightarrow> int" where
  "decimal_value ds = foldl (\<lambda>acc c. 10 * acc + digit_value c) 0 ds"

text \<open>
  \<open>Number(s)\<close> on a string, for the literals the model's numbers cover: surrounding white
  space is dropped, the empty string is \<open>0\<close>, and an optionally signed run of decimal
  digits is its value. The other literal forms of JavaScript (a fraction, an exponent, a
  radix prefix, \<open>Infinity\<close>) are not covered: they read as \<open>NaN\<close> here, like every string
  that is no number, so that a due date written with one of them is refused here where
  the source may accept it.
\<close>

definition unsigned_Number :: "string \<Rightarrow> jsnum" where
  "unsigned_Number ds = (if ds \<noteq> [] \<and> list_all is_digit ds then Num (decimal_value ds) else NaN)"

definition js_Number :: "string \<Rightarrow> jsnum" where
  "js_Number s =
     (case js_trim s of
        [] \<Rightarrow> Num 0
      | c # cs \<Rightarrow>
          if c = CHR ''-'' then js_minus (Num 0) (unsigned_Number cs)
          else if c = CHR ''+'' then unsigned_Number cs
          else unsigned_Number (c # cs))"

text \<open>The decimal numeral of an integer, as \<open>String(n)\<close> prints it.\<close>

fun show_nat :: "nat \<Rightarrow> string" where
  "show_nat n =
     (if n < 10 then [char_of (48 + n)]
      else show_nat (n div 10) @ [char_of (48 + n mod 10)])"

declare show_nat.simps [simp del]

definition show_int :: "int \<Rightarrow> string" where
  "show_int i = (if i < 0 then CHR ''-'' # show_nat (nat (- i)) else show_nat (nat i))"

text \<open>\<open>parts.join(",")\<close>.\<close>

fun js_join :: "string list \<Rightarrow> string" where
  "js_join [] = []"
| "js_join [p] = p"
| "js_join (p # q # ps) = p @ '','' @ js_join (q # ps)"

text \<open>
  \<open>String(v)\<close>: an array prints its elements separated by commas, \<open>null\<close> elements as
  the empty string; a plain object prints as \<open>[object Object]\<close>.
\<close>

fun js_toString :: "json \<Rightarrow> string" where
  "js_toString JNull = ''null''"
| "js_toString (JBool b) = (if b then ''true'' else ''false'')"
| "js_toString (JNum n) = show_int n"
| "js_toString (JStr s) = s"
| "js_toString (JArr xs) =
     js_join (map (\<lambda>x. if x = JNull then [] else js_toString x) xs)"
| "js_toString (JObj kvs) = ''[object Object]''"

text \<open>The number a value converts to in a comparison.\<close>

fun js_ToNumber :: "json option \<Rightarrow> jsnum" where
  "js_ToNumber None = NaN"
| "js_ToNumber (Some JNull) = Num 0"
| "js_ToNumber (Some (JBool b)) = Num (if b then 1 else 0)"
| "js_ToNumber (Some (JNum n)) = Num n"
| "js_ToNumber (Some (JStr s)) = js_Number s"
| "js_ToNumber (Some (JArr xs)) = js_Number (js_toString (JArr xs))"
| "js_ToNumber (Some (JObj kvs)) = NaN"

text \<open>
  \<open>v.length\<close> of a value that is neither \<open>null\<close> nor \<open>undefined\<close>: strings and arrays
  have one, an object has the property it was given, numbers and booleans have none.
\<close>

fun js_length :: "json \<Rightarrow> json option" where
  "js_length (JStr s) = Some (JNum (int (length s)))"
| "js_length (JArr xs) = Some (JNum (int (length xs)))"
| "js_length (JObj kvs) = js_prop kvs ''length''"
| "js_length _ = None"

text \<open>
  \<open>isEmpty\<close> of the task controller: \<open>null\<close> and \<open>undefined\<close>, a string that is
  blank after \<open>trim\<close>, an array of length \<open>0\<close>, an object without keys.
\<close>

fun isEmpty :: "json option \<Rightarrow> bool" where
  "isEmpty None = True"
| "isEmpty (Some JNull) = True"
| "isEmpty (Some (JStr s)) = (js_trim s = [])"
| "isEmpty (Some (JArr xs)) = (xs = [])"
| "isEmpty (Some (JObj kvs)) = (kvs = [])"
| "isEmpty (Some v) = False"

section \<open>Data model\<close>

text \<open>
  Identifiers are the store's ObjectIds, written as 24 hexadecimal digits in lower case.
  A string of the request layer is cast to an identifier when it consists of 24
  hexadecimal digits; other forms that a driver may accept as an identifier are not
  covered.
\<close>

type_synonym objectid = string

definition is_hex_digit :: "char \<Rightarrow> bool" where
  "is_hex_digit c =
     ((48 \<le> (of_char c :: nat) \<and> (of_char c :: nat) \<le> 57) \<or>
      (65 \<le> (of_char c :: nat) \<and> (of_char c :: nat) \<le> 70) \<or>
      (97 \<le> (of_char c :: nat) \<and> (of_char c :: nat) \<le> 102))"

definition hex_lower :: "char \<Rightarrow> char" where
  "hex_lower c =
     (if 65 \<le> (of_char c :: nat) \<and> (of_char c :: nat) \<le> 70
      then char_of ((of_char c :: nat) + 32) else c)"

text \<open>\<open>mongoose.Types.ObjectId.isValid\<close> on a string of the route.\<close>

definition ObjectId_isValid :: "string \<Rightarrow> bool" where
  "ObjectId_isValid s = (length s = 24 \<and> list_all is_hex_digit s)"

definition castObjectId :: "string \<Rightarrow> objectid option" where
  "castObjectId s = (if ObjectId_isValid s then Some (map hex_lower s) else None)"

text \<open>
  A \<open>Date\<close> is kept as the three arguments it was constructed from: year, month index
  and day. It is an invalid date when one of them is \<open>NaN\<close>.
\<close>

datatype jsdate = Date jsnum jsnum jsnum

record user =
  user_id :: objectid
  firstName :: string
  lastName :: string
  email :: string
  password :: string

record comment =
  comment_user :: objectid
  comment_text :: string

record task =
  task_id :: objectid
  title :: string
  description :: string
  status :: string
  dueDate :: "jsdate option"
  assignedTo :: "objectid option"
  comments :: "comment list"

record team =
  team_id :: objectid
  team_name :: string
  team_description :: "string option"
  members :: "objectid list"
  createdBy :: objectid

text \<open>The three collections, each in insertion order.\<close>

record store =
  users :: "user list"
  tasks :: "task list"
  teams :: "team list"

text \<open>
  Modelled from the spec: the enumeration \<open>TaskStatus\<close> of \<open>enums/taskstatus\<close>, which is
  not among the sources. The spec gives the status of a task as one of open and closed,
  the two values that the validator's own message names.
\<close>

definition TaskStatus_values :: "string list" where
  "TaskStatus_values = [''open'', ''closed'']"

text \<open>\<open>Object.values(TaskStatus).includes(v)\<close>: only a string that is one of the values.\<close>

fun TaskStatus_includes :: "json option \<Rightarrow> bool" where
  "TaskStatus_includes (Some (JStr s)) = (s \<in> set TaskStatus_values)"
| "TaskStatus_includes _ = False"

section \<open>Errors and responses\<close>

text \<open>
  What a handler can catch: the errors JavaScript raises by itself, the cast and
  validation failures of the object mapper, and the store's duplicate key error (code
  11000) with the index and the key that collided. Only the last one has an \<open>errmsg\<close>.
\<close>

datatype error =
    TypeError string
  | ReferenceError string
  | CastError
  | ValidationError
  | DuplicateKeyError string string

fun is_duplicate_key :: "error \<Rightarrow> bool" where
  "is_duplicate_key (DuplicateKeyError index key) = True"
| "is_duplicate_key _ = False"

text \<open>
  The body of a response: nothing, a text, one of the small JSON objects
  \<open>{text: ...}\<close> and \<open>{error: ...}\<close>, a document or a list of documents, the message of
  an error, or the message builder \<open>TASK_NOT_FOUND\<close> where a handler hands it to
  \<open>send\<close> without applying it (what the framework makes of a function is left open).
\<close>

datatype body =
    Empty
  | Text string
  | JsonText string
  | JsonError string
  | JsonTask task
  | JsonTasks "task list"
  | JsonTeam team
  | ErrorText error
  | MessageBuilder

datatype response = Response (http_status: nat) (http_body: body) | NoResponse

text \<open>\<open>HTTP_STATUS_CODES\<close> of the constants module.\<close>

definition NOT_FOUND :: nat where "NOT_FOUND = 404"
definition SUCCESS :: nat where "SUCCESS = 200"
definition CREATED :: nat where "CREATED = 201"
definition INTERNAL_SERVER_ERROR :: nat where "INTERNAL_SERVER_ERROR = 500"

text \<open>\<open>res.send(err.errmsg)\<close> and \<open>res.send(err.message)\<close>.\<close>

definition send_errmsg :: "error \<Rightarrow> body" where
  "send_errmsg e = (if is_duplicate_key e then ErrorText e else Empty)"

definition send_message :: "error \<Rightarrow> body" where
  "send_message e = ErrorText e"

section \<open>Task Validator\<close>

text \<open>
  A middleware either answers the request itself, passes it on with \<open>next()\<close>, or
  throws; what it throws outside a \<open>try\<close> reaches the framework's error handler, which
  answers 500.
\<close>

datatype verdict = Next | Reply response | Throw error

definition express_error :: "error \<Rightarrow> response" where
  "express_error e = Response 500 (ErrorText e)"

text \<open>\<open>v.length\<close> as a number; reading it from \<open>null\<close> or \<open>undefined\<close> throws.\<close>

fun member_length :: "json option \<Rightarrow> error + jsnum" where
  "member_length None = Inl (TypeError ''Cannot read properties of undefined'')"
| "member_length (Some JNull) = Inl (TypeError ''Cannot read properties of null'')"
| "member_length (Some v) = Inr (js_ToNumber (js_length v))"

text \<open>The check of the three parts of a due date, after \<open>dateParts.map(Number)\<close>.\<close>

definition bad_date_parts :: "jsnum \<Rightarrow> jsnum \<Rightarrow> jsnum \<Rightarrow> bool" where
  "bad_date_parts day month year =
     (js_isNaN day \<or> js_isNaN month \<or> js_isNaN year \<or>
      js_lt month (Num 1) \<or> js_gt month (Num 12) \<or>
      js_lt day (Num 1) \<or> js_gt day (Num 31))"

definition check_dueDate :: "json option \<Rightarrow> verdict" where
  "check_dueDate dueDate_in =
     (if js_truthy dueDate_in then
        (case dueDate_in of
           Some (JStr s) \<Rightarrow>
             (case map js_Number (js_split CHR ''-'' s) of
                [day, month, year] \<Rightarrow>
                  if bad_date_parts day month year
                  then Reply (Response 400 (Text ''Bad Request : Invalid due date''))
                  else Next
              | _ \<Rightarrow> Reply (Response 400 (Text ''Bad Request : Invalid due date format'')))
         | _ \<Rightarrow> Throw (TypeError ''dueDate.split is not a function''))
      else Next)"

definition invalid_status_message :: string where
  "invalid_status_message =
     ''Bad Request : Invalid Task Status. Status must be either '' @ [CHR 0x22] @ ''open'' @
     [CHR 0x22] @ '' or '' @ [CHR 0x22] @ ''closed'' @ [CHR 0x22]"

text \<open>
  \<open>validateTask\<close>, check by check in the order of the source. The membership test of the
  status stands before the test that the status is not blank.
\<close>

definition validateTask :: "jsobj \<Rightarrow> verdict" where
  "validateTask reqbody =
     (let title_in = js_prop reqbody ''title'';
          description_in = js_prop reqbody ''description'';
          status_in = js_prop reqbody ''status'';
          dueDate_in = js_prop reqbody ''dueDate''
      in
      if isEmpty title_in
      then Reply (Response 400 (Text ''Bad Request : Title cannot be blank''))
      else (case member_length title_in of
        Inl e \<Rightarrow> Throw e
      | Inr tlen \<Rightarrow>
      if js_lt tlen (Num 5) \<or> js_gt tlen (Num 100)
      then Reply (Response 400
             (Text ''Bad Request: Title must be between 5 and 100 characters long.''))
      else if isEmpty description_in
      then Reply (Response 400 (Text ''Bad Request : Description cannot be blank''))
      else (case member_length description_in of
        Inl e \<Rightarrow> Throw e
      | Inr dlen \<Rightarrow>
      if js_gt dlen (Num 1000)
      then Reply (Response 400
             (Text ''Bad Request: Description must not exceed 500 characters.''))
      else if \<not> TaskStatus_includes status_in
      then Reply (Response 400 (Text invalid_status_message))
      else if isEmpty status_in
      then Reply (Response 400 (Text ''Bad Request : Status cannot be blank''))
      else if isEmpty dueDate_in
      then Reply (Response 400 (Text ''Bad Request : Due Date cannot be blank''))
      else check_dueDate dueDate_in)))"

section \<open>The collections behind the object mapper\<close>

text \<open>
  The handlers reach the database through the object mapper. Its operations are modelled
  on the three lists of the store, with the failures a handler can catch: an identifier
  that cannot be cast, a document that fails its schema, a unique index that is violated.
  Timestamps are left out.
\<close>

definition findById :: "('a \<Rightarrow> objectid) \<Rightarrow> 'a list \<Rightarrow> string \<Rightarrow> error + 'a option" where
  "findById key docs ident =
     (case castObjectId ident of
        None \<Rightarrow> Inl CastError
      | Some oid \<Rightarrow> Inr (find (\<lambda>d. key d = oid) docs))"

definition Task_findById :: "store \<Rightarrow> string \<Rightarrow> error + task option" where
  "Task_findById st ident = findById task_id (tasks st) ident"

definition User_findById :: "store \<Rightarrow> string \<Rightarrow> error + user option" where
  "User_findById st ident = findById user_id (users st) ident"

definition Team_findById :: "store \<Rightarrow> string \<Rightarrow> error + team option" where
  "Team_findById st ident = findById team_id (teams st) ident"

text \<open>
  The cast of a value to a path of type String: \<open>null\<close> and \<open>undefined\<close> stay unset,
  numbers and booleans are printed, arrays and plain objects are refused.
\<close>

fun castString :: "json option \<Rightarrow> error + string option" where
  "castString None = Inr None"
| "castString (Some JNull) = Inr None"
| "castString (Some (JStr s)) = Inr (Some s)"
| "castString (Some (JNum n)) = Inr (Some (show_int n))"
| "castString (Some (JBool b)) = Inr (Some (if b then ''true'' else ''false''))"
| "castString (Some (JArr xs)) = Inl CastError"
| "castString (Some (JObj kvs)) = Inl CastError"

text \<open>
  The cast of a value to an identifier: \<open>null\<close> and \<open>undefined\<close> name no document, a
  string must be a well-formed identifier, anything else is refused.
\<close>

fun castId :: "json option \<Rightarrow> error + objectid option" where
  "castId None = Inr None"
| "castId (Some JNull) = Inr None"
| "castId (Some (JStr s)) =
     (case castObjectId s of None \<Rightarrow> Inl CastError | Some oid \<Rightarrow> Inr (Some oid))"
| "castId (Some v) = Inl CastError"

subsection \<open>The Task schema\<close>

definition valid_title :: "string \<Rightarrow> bool" where
  "valid_title s = (s \<noteq> [] \<and> 5 \<le> length s \<and> length s \<le> 100)"

definition valid_description :: "string \<Rightarrow> bool" where
  "valid_description s = (s \<noteq> [] \<and> length s \<le> 1000)"

definition valid_status :: "string \<Rightarrow> bool" where
  "valid_status s = (s \<in> set TaskStatus_values)"

fun valid_date :: "jsdate option \<Rightarrow> bool" where
  "valid_date None = True"
| "valid_date (Some (Date (Num y) (Num m) (Num d))) = True"
| "valid_date (Some other) = False"

text \<open>
  A task document with the given paths set, as \<open>save\<close> accepts it: title, description
  and status are required strings within their bounds, the due date is absent or a valid
  date. Any cast or validator that fails makes the save fail with a validation error.
\<close>

definition Task_document ::
  "objectid \<Rightarrow> json option \<Rightarrow> json option \<Rightarrow> json option \<Rightarrow> jsdate option \<Rightarrow>
   objectid option \<Rightarrow> comment list \<Rightarrow> error + task" where
  "Task_document oid title_in description_in status_in due assignee cs =
     (case (castString title_in, castString description_in, castString status_in) of
        (Inr (Some t), Inr (Some d), Inr (Some s)) \<Rightarrow>
          if valid_title t \<and> valid_description d \<and> valid_status s \<and> valid_date due
          then Inr \<lparr>task_id = oid, title = t, description = d, status = s, dueDate = due,
                    assignedTo = assignee, comments = cs\<rparr>
          else Inl ValidationError
      | _ \<Rightarrow> Inl ValidationError)"

text \<open>The unique index on the title: another document already has it.\<close>

definition title_taken :: "task list \<Rightarrow> objectid \<Rightarrow> string \<Rightarrow> bool" where
  "title_taken ts oid t = list_ex (\<lambda>x. title x = t \<and> task_id x \<noteq> oid) ts"

text \<open>
  \<open>save\<close> of a new document and of a loaded one. The identifier is unique in a
  collection as the title is.
\<close>

definition Task_insert :: "store \<Rightarrow> task \<Rightarrow> error + store" where
  "Task_insert st doc =
     (if list_ex (\<lambda>x. task_id x = task_id doc) (tasks st)
      then Inl (DuplicateKeyError ''_id_'' (task_id doc))
      else if title_taken (tasks st) (task_id doc) (title doc)
      then Inl (DuplicateKeyError ''title_1'' (title doc))
      else Inr (st\<lparr>tasks := tasks st @ [doc]\<rparr>))"

definition replace_task :: "task \<Rightarrow> task list \<Rightarrow> task list" where
  "replace_task doc ts = map (\<lambda>x. if task_id x = task_id doc then doc else x) ts"

definition Task_save :: "store \<Rightarrow> task \<Rightarrow> error + store" where
  "Task_save st doc =
     (if title_taken (tasks st) (task_id doc) (title doc)
      then Inl (DuplicateKeyError ''title_1'' (title doc))
      else Inr (st\<lparr>tasks := replace_task doc (tasks st)\<rparr>))"

text \<open>
  \<open>findByIdAndUpdate(id, update, {new: true})\<close>: the document after the update, or
  \<open>null\<close> when there is none with this identifier.
\<close>

definition Task_findByIdAndUpdate ::
  "store \<Rightarrow> string \<Rightarrow> (task \<Rightarrow> task) \<Rightarrow> error + store \<times> task option" where
  "Task_findByIdAndUpdate st ident upd =
     (case Task_findById st ident of
        Inl e \<Rightarrow> Inl e
      | Inr None \<Rightarrow> Inr (st, None)
      | Inr (Some t) \<Rightarrow> Inr (st\<lparr>tasks := replace_task (upd t) (tasks st)\<rparr>, Some (upd t)))"

text \<open>The filter of \<open>Task.find\<close>: none, or a status.\<close>

datatype task_query = AllTasks | WithStatus json

definition Task_find :: "store \<Rightarrow> task_query \<Rightarrow> error + task list" where
  "Task_find st q =
     (case q of
        AllTasks \<Rightarrow> Inr (tasks st)
      | WithStatus v \<Rightarrow>
          (case castString (Some v) of
             Inr (Some s) \<Rightarrow> Inr (filter (\<lambda>t. status t = s) (tasks st))
           | _ \<Rightarrow> Inl CastError))"

section \<open>Notification Dispatcher\<close>

record mailOptions =
  mail_from :: "string option"
  mail_to :: "string option"
  mail_subject :: string
  mail_text :: string
  mail_html :: string

text \<open>
  What the process reads from its surroundings: the sender address of the environment
  and the locale's rendering of a date.
\<close>

record env =
  EMAIL_USER :: "string option"
  toLocaleString :: "jsdate \<Rightarrow> string"

text \<open>
  The second argument of \<open>populateEmailForAssignee\<close> as its two callers pass it: the
  user document that \<open>userExists\<close> loaded, or the identifier stored in \<open>assignedTo\<close>.
  An identifier has no \<open>email\<close>, \<open>firstName\<close> or \<open>lastName\<close>.
\<close>

datatype recipient = UserDocument user | BareId objectid

fun member_of :: "recipient \<Rightarrow> (user \<Rightarrow> string) \<Rightarrow> string option" where
  "member_of (UserDocument u) field = Some (field u)"
| "member_of (BareId oid) field = None"

text \<open>A value inside a template literal.\<close>

fun interpolate :: "string option \<Rightarrow> string" where
  "interpolate None = ''undefined''"
| "interpolate (Some s) = s"

definition populateEmailForAssignee ::
  "env \<Rightarrow> task \<Rightarrow> recipient \<Rightarrow> bool \<Rightarrow> error + mailOptions" where
  "populateEmailForAssignee ev t u isUpdate =
     (case dueDate t of
        None \<Rightarrow> Inl (TypeError ''Cannot read properties of undefined'')
      | Some due \<Rightarrow>
          (let formattedDateTime = toLocaleString ev due;
               hello = interpolate (member_of u firstName) @ '' '' @
                       interpolate (member_of u lastName)
           in Inr \<lparr>mail_from = EMAIL_USER ev,
                   mail_to = member_of u email,
                   mail_subject =
                     (if isUpdate then ''Task Update Notification''
                      else ''Task Assignment Notification''),
                   mail_text =
                     (if isUpdate
                      then ''Hello '' @ hello @ '',\<newline>  \<newline>  Your task titled '' @ [CHR 0x22] @
                           title t @ [CHR 0x22] @
                           '' has been updated. Please review the latest changes to ensure you are up-to-date.''
                      else ''Hello '' @ hello @
                           '',\<newline>  \<newline>  You have been assigned a new task titled '' @
                           [CHR 0x22] @ title t @ [CHR 0x22] @ ''. Please complete it by '' @
                           formattedDateTime @ ''.''),
                   mail_html =
                     (if isUpdate
                      then ''<p>Hello '' @ hello @ '',</p>\<newline>         <p>Your task titled <strong>'' @
                           title t @
                           ''</strong> has been updated.</p>\<newline>         <p>Please review the latest changes to ensure you are up-to-date.</p>''
                      else ''<p>Hello '' @ hello @
                           '',</p>\<newline>         <p>You have been assigned a new task.</p>\<newline>         <p>Task Title: <strong>'' @
                           title t @ ''</strong>.</p>\<newline>         <p>Please complete it by '' @
                           formattedDateTime @ ''.</p>'')\<rparr>))"

text \<open>What the handlers and the mail service write to the console.\<close>

datatype log_entry =
    LogError error
  | LogDuplicateKey error
  | LogMessage error
  | LogText string
  | LogMail mailOptions
  | LogEmailSent string
  | LogEmailError string

text \<open>
  The external send collaborator: the transport's \<open>sendMail\<close> either fails with an
  error or returns the server's response line.
\<close>

type_synonym transport = "mailOptions \<Rightarrow> string + string"

text \<open>
  \<open>sendEmail\<close>: the whole body stands in a \<open>try\<close> whose \<open>catch\<close> only logs, so the
  call has no result but its console output.
\<close>

definition sendEmail :: "transport \<Rightarrow> mailOptions \<Rightarrow> log_entry list" where
  "sendEmail transporter m =
     (case transporter m of
        Inl err \<Rightarrow> [LogEmailError err]
      | Inr info \<Rightarrow> [LogEmailSent info])"

section \<open>Task Lifecycle Manager\<close>

text \<open>
  What a request leaves behind: the store after it, the response to the caller, the mail
  payloads handed to \<open>sendEmail\<close>, and the console output.
\<close>

record outcome =
  db :: store
  reply :: response
  sent :: "mailOptions list"
  console :: "log_entry list"

definition answer :: "store \<Rightarrow> response \<Rightarrow> outcome" where
  "answer st r = \<lparr>db = st, reply = r, sent = [], console = []\<rparr>"

text \<open>
  The \<open>catch\<close> of every handler of the task controller: the error is logged and the
  caller gets status 500 with the \<open>errmsg\<close> of the error.
\<close>

definition caught :: "store \<Rightarrow> error \<Rightarrow> outcome" where
  "caught st e =
     \<lparr>db = st, reply = Response INTERNAL_SERVER_ERROR (send_errmsg e), sent = [],
      console = [LogError e]\<rparr>"

text \<open>
  \<open>parseDate\<close>: the three parts of the string as numbers, handed to the \<open>Date\<close>
  constructor with the month counted from zero. A missing part is \<open>undefined\<close>.
\<close>

definition part :: "jsnum list \<Rightarrow> nat \<Rightarrow> jsnum" where
  "part ps i = (if i < length ps then ps ! i else NaN)"

definition parseDate :: "string \<Rightarrow> jsdate" where
  "parseDate dateString =
     (let ps = map js_Number (js_split CHR ''-'' dateString);
          day = part ps 0; month = part ps 1; year = part ps 2
      in Date year (js_minus month (Num 1)) day)"

text \<open>\<open>dueDate ? parseDate(dueDate) : null\<close>; only a string can be split.\<close>

definition parsedDueDate :: "json option \<Rightarrow> error + jsdate option" where
  "parsedDueDate dueDate_in =
     (if js_truthy dueDate_in then
        (case dueDate_in of
           Some (JStr s) \<Rightarrow> Inr (Some (parseDate s))
         | _ \<Rightarrow> Inl (TypeError ''dateString.split is not a function''))
      else Inr None)"

text \<open>A route behind the \<open>validateTask\<close> middleware.\<close>

definition validated :: "store \<Rightarrow> jsobj \<Rightarrow> outcome \<Rightarrow> outcome" where
  "validated st reqbody handler =
     (case validateTask reqbody of
        Reply r \<Rightarrow> answer st r
      | Throw e \<Rightarrow> answer st (express_error e)
      | Next \<Rightarrow> handler)"

subsection \<open>GET /tasks\<close>

text \<open>
  The first part of the handler checks the status of the query string and builds the
  filter; only then is the collection read.
\<close>

definition tasks_query :: "json option \<Rightarrow> response + task_query" where
  "tasks_query status_in =
     (if js_truthy status_in \<and> \<not> TaskStatus_includes status_in
      then Inl (Response 400 (Text ''Invalid task status''))
      else if js_truthy status_in
      then (case status_in of Some v \<Rightarrow> Inr (WithStatus v) | None \<Rightarrow> Inr AllTasks)
      else Inr AllTasks)"

definition get_tasks :: "store \<Rightarrow> json option \<Rightarrow> outcome" where
  "get_tasks st status_in =
     (case tasks_query status_in of
        Inl r \<Rightarrow> answer st r
      | Inr query \<Rightarrow>
          (case Task_find st query of
             Inl e \<Rightarrow> caught st e
           | Inr found \<Rightarrow>
               if found = [] then answer st (Response 404 (Text ''No tasks found''))
               else answer st (Response 200 (JsonTasks found))))"

subsection \<open>POST /tasks\<close>

text \<open>
  The identifier of the new document is the one the driver generates; it is an input
  here.
\<close>

definition post_tasks :: "store \<Rightarrow> objectid \<Rightarrow> jsobj \<Rightarrow> outcome" where
  "post_tasks st new_id reqbody =
     validated st reqbody
       (case parsedDueDate (js_prop reqbody ''dueDate'') of
          Inl e \<Rightarrow> caught st e
        | Inr due \<Rightarrow>
            (case Task_document new_id (js_prop reqbody ''title'')
                    (js_prop reqbody ''description'') (js_prop reqbody ''status'') due None [] of
               Inl e \<Rightarrow> caught st e
             | Inr newTask \<Rightarrow>
                 (case Task_insert st newTask of
                    Inl e \<Rightarrow> caught st e
                  | Inr st' \<Rightarrow> answer st' (Response CREATED (JsonTask newTask)))))"

subsection \<open>PUT /tasks/:id\<close>

text \<open>
  Each of the four assignments of the handler reads \<open>payload || task.field\<close>, and no
  variable \<open>task\<close> is in scope: when the payload's value is falsy the right operand is
  evaluated and throws a reference error, which the handler's \<open>catch\<close> turns into
  status 500. The assignments change the loaded document only; the store changes with
  \<open>save\<close>. When the saved task has an assignee, the mail is built from the task and
  the stored identifier of the assignee.
\<close>

definition task_is_not_defined :: error where
  "task_is_not_defined = ReferenceError ''task is not defined''"

text \<open>\<open>payload || task.field\<close> and \<open>parsedDueDate || task.dueDate\<close>.\<close>

definition payload_or_task :: "json option \<Rightarrow> error + json option" where
  "payload_or_task v = (if js_truthy v then Inr v else Inl task_is_not_defined)"

definition date_or_task :: "jsdate option \<Rightarrow> error + jsdate option" where
  "date_or_task due = (case due of Some d \<Rightarrow> Inr (Some d) | None \<Rightarrow> Inl task_is_not_defined)"

definition notify_update :: "env \<Rightarrow> transport \<Rightarrow> store \<Rightarrow> task \<Rightarrow> outcome" where
  "notify_update ev transporter st updatedTask =
     (case assignedTo updatedTask of
        None \<Rightarrow> answer st (Response SUCCESS (JsonTask updatedTask))
      | Some assignee \<Rightarrow>
          (case populateEmailForAssignee ev updatedTask (BareId assignee) True of
             Inl e \<Rightarrow> caught st e
           | Inr m \<Rightarrow>
               \<lparr>db = st, reply = Response SUCCESS (JsonTask updatedTask), sent = [m],
                console = LogMail m # sendEmail transporter m\<rparr>))"

definition put_task :: "env \<Rightarrow> transport \<Rightarrow> store \<Rightarrow> string \<Rightarrow> jsobj \<Rightarrow> outcome" where
  "put_task ev transporter st taskIdToUpdate reqbody =
     validated st reqbody
       (case parsedDueDate (js_prop reqbody ''dueDate'') of
          Inl e \<Rightarrow> caught st e
        | Inr due \<Rightarrow>
            (case Task_findById st taskIdToUpdate of
               Inl e \<Rightarrow> caught st e
             | Inr None \<Rightarrow> answer st (Response NOT_FOUND MessageBuilder)
             | Inr (Some taskfromDB) \<Rightarrow>
                 (case payload_or_task (js_prop reqbody ''title'') of
                    Inl e \<Rightarrow> caught st e
                  | Inr new_title \<Rightarrow>
                 (case payload_or_task (js_prop reqbody ''description'') of
                    Inl e \<Rightarrow> caught st e
                  | Inr new_description \<Rightarrow>
                 (case payload_or_task (js_prop reqbody ''status'') of
                    Inl e \<Rightarrow> caught st e
                  | Inr new_status \<Rightarrow>
                 (case date_or_task due of
                    Inl e \<Rightarrow> caught st e
                  | Inr new_due \<Rightarrow>
                 (case Task_document (task_id taskfromDB) new_title new_description
                         new_status new_due (assignedTo taskfromDB) (comments taskfromDB) of
                    Inl e \<Rightarrow> caught st e
                  | Inr doc \<Rightarrow>
                      (case Task_save st doc of
                         Inl e \<Rightarrow> caught st e
                       | Inr st' \<Rightarrow> notify_update ev transporter st' doc))))))))"

subsection \<open>PUT /tasks/:id/assign\<close>

text \<open>
  \<open>userExists\<close> loads the user named by \<open>assignedTo\<close> and keeps the document for the
  handler; \<open>taskExists\<close> checks the task.
\<close>

definition userExists :: "store \<Rightarrow> jsobj \<Rightarrow> outcome + user" where
  "userExists st reqbody =
     (case castId (js_prop reqbody ''assignedTo'') of
        Inl e \<Rightarrow> Inl (caught st e)
      | Inr None \<Rightarrow> Inl (answer st (Response 400 (JsonError ''User not found'')))
      | Inr (Some userId) \<Rightarrow>
          (case find (\<lambda>u. user_id u = userId) (users st) of
             None \<Rightarrow> Inl (answer st (Response 400 (JsonError ''User not found'')))
           | Some u \<Rightarrow> Inr u))"

definition taskExists :: "store \<Rightarrow> string \<Rightarrow> outcome + task" where
  "taskExists st taskId =
     (case Task_findById st taskId of
        Inl e \<Rightarrow> Inl (caught st e)
      | Inr None \<Rightarrow> Inl (answer st (Response 404 (JsonError ''Task not found'')))
      | Inr (Some t) \<Rightarrow> Inr t)"

definition put_task_assign :: "env \<Rightarrow> transport \<Rightarrow> store \<Rightarrow> string \<Rightarrow> jsobj \<Rightarrow> outcome" where
  "put_task_assign ev transporter st taskId reqbody =
     (case userExists st reqbody of
        Inl out \<Rightarrow> out
      | Inr req_user \<Rightarrow>
     (case taskExists st taskId of
        Inl out \<Rightarrow> out
      | Inr req_task \<Rightarrow>
     (case castId (js_prop reqbody ''assignedTo'') of
        Inl e \<Rightarrow> caught st e
      | Inr assignee \<Rightarrow>
     (case Task_findByIdAndUpdate st taskId (\<lambda>t. t\<lparr>assignedTo := assignee\<rparr>) of
        Inl e \<Rightarrow> caught st e
      | Inr (st', None) \<Rightarrow> answer st' (Response 404 (JsonError ''Task not found''))
      | Inr (st', Some updatedTask) \<Rightarrow>
          (case populateEmailForAssignee ev updatedTask (UserDocument req_user) False of
             Inl e \<Rightarrow> caught st' e
           | Inr m \<Rightarrow>
               \<lparr>db = st', reply = Response 200 (JsonTask updatedTask), sent = [m],
                console = LogMail m # sendEmail transporter m\<rparr>)))))"

subsection \<open>PATCH /tasks/:id/complete\<close>

text \<open>
  The update runs the validators of the schema on the new status before it is written.
\<close>

definition patch_task_complete :: "store \<Rightarrow> string \<Rightarrow> outcome" where
  "patch_task_complete st taskId =
     (if \<not> ObjectId_isValid taskId
      then answer st (Response 400 (Text ''Invalid task ID''))
      else if \<not> valid_status ''closed'' then caught st ValidationError
      else (case Task_findByIdAndUpdate st taskId (\<lambda>t. t\<lparr>status := ''closed''\<rparr>) of
              Inl e \<Rightarrow> caught st e
            | Inr (st', None) \<Rightarrow> answer st' (Response 404 (Text ''Task not found''))
            | Inr (st', Some t) \<Rightarrow> answer st' (Response 200 (JsonTask t))))"

section \<open>Identity Context\<close>

text \<open>
  The claims that the login route signs into the token: the user's email, the user's
  identifier under the key \<open>id\<close>, and the two names; the library adds the time of issue
  and the expiry, 24 hours later.
\<close>

definition login_token_payload :: "user \<Rightarrow> int \<Rightarrow> jsobj" where
  "login_token_payload u iat =
     [(''email'', JStr (email u)), (''id'', JStr (user_id u)),
      (''firstName'', JStr (firstName u)), (''lastName'', JStr (lastName u)),
      (''iat'', JNum iat), (''exp'', JNum (iat + 86400))]"

text \<open>
  \<open>sharedMiddleware\<close>: without an \<open>authorization\<close> header the request is answered 401;
  the token after the first seven characters is verified, by a collaborator that yields
  the decoded claims or fails; the decoded claims become \<open>req.user\<close>.
\<close>

definition sharedMiddleware :: "(string \<Rightarrow> jsobj option) \<Rightarrow> string option \<Rightarrow> response + jsobj" where
  "sharedMiddleware verify authorization =
     (case authorization of
        None \<Rightarrow> Inl (Response 401 (JsonError ''Unauthorized: No token provided''))
      | Some token \<Rightarrow>
          if token = [] then Inl (Response 401 (JsonError ''Unauthorized: No token provided''))
          else (case verify (drop 7 token) of
                  None \<Rightarrow> Inl (Response 403 (JsonError ''Forbidden: Invalid token''))
                | Some decoded \<Rightarrow> Inr decoded))"

section \<open>Team Manager and Team Authorization Guard\<close>

text \<open>
  The operand of \<open>$in\<close> in \<open>User.find({email: {$in: memberEmails}})\<close>: every element of
  an array is cast to a string, a single value is taken as an array of one.
\<close>

fun cast_all :: "json list \<Rightarrow> error + string option list" where
  "cast_all [] = Inr []"
| "cast_all (v # vs) =
     (case castString (Some v) of
        Inl e \<Rightarrow> Inl e
      | Inr s \<Rightarrow> (case cast_all vs of Inl e \<Rightarrow> Inl e | Inr ss \<Rightarrow> Inr (s # ss)))"

definition in_operand :: "json option \<Rightarrow> error + string option list" where
  "in_operand v =
     (case v of
        Some (JArr xs) \<Rightarrow> cast_all xs
      | other \<Rightarrow> (case castString other of Inl e \<Rightarrow> Inl e | Inr s \<Rightarrow> Inr [s]))"

definition User_find_email_in :: "store \<Rightarrow> json option \<Rightarrow> error + user list" where
  "User_find_email_in st memberEmails =
     (case in_operand memberEmails of
        Inl e \<Rightarrow> Inl e
      | Inr wanted \<Rightarrow> Inr (filter (\<lambda>u. Some (email u) \<in> set wanted) (users st)))"

text \<open>\<open>memberEmails.length\<close> of a truthy value.\<close>

definition length_of :: "json option \<Rightarrow> json option" where
  "length_of v = (case v of None \<Rightarrow> None | Some x \<Rightarrow> js_length x)"

text \<open>\<open>members.length !== memberEmails.length\<close>, a comparison without conversion.\<close>

definition length_differs :: "user list \<Rightarrow> json option \<Rightarrow> bool" where
  "length_differs found memberEmails =
     (length_of memberEmails \<noteq> Some (JNum (int (length found))))"

text \<open>
  The \<open>catch\<close> of the team handlers. For a duplicate key it logs and then reads
  \<open>RESPONSE_MESSAGES\<close>, which the team controller never imports: the reference error
  leaves the handler and the request gets no response. Every other error is answered
  500 with its message.
\<close>

definition team_caught :: "store \<Rightarrow> error \<Rightarrow> log_entry list \<Rightarrow> outcome" where
  "team_caught st e logged =
     (if is_duplicate_key e
      then \<lparr>db = st, reply = NoResponse, sent = [], console = [LogDuplicateKey e]\<rparr>
      else \<lparr>db = st, reply = Response 500 (send_message e), sent = [], console = logged\<rparr>)"

subsection \<open>The Team schema\<close>

definition valid_team_name :: "string \<Rightarrow> bool" where
  "valid_team_name s = (s \<noteq> [] \<and> 3 \<le> length s \<and> length s \<le> 100)"

fun valid_team_description :: "string option \<Rightarrow> bool" where
  "valid_team_description None = True"
| "valid_team_description (Some s) = (length s \<le> 1000)"

definition Team_document ::
  "objectid \<Rightarrow> json option \<Rightarrow> json option \<Rightarrow> objectid list \<Rightarrow> objectid \<Rightarrow> error + team" where
  "Team_document oid name_in description_in member_ids owner =
     (case (castString name_in, castString description_in) of
        (Inr (Some n), Inr d) \<Rightarrow>
          if valid_team_name n \<and> valid_team_description d
          then Inr \<lparr>team_id = oid, team_name = n, team_description = d,
                    members = member_ids, createdBy = owner\<rparr>
          else Inl ValidationError
      | _ \<Rightarrow> Inl ValidationError)"

definition name_taken :: "team list \<Rightarrow> objectid \<Rightarrow> string \<Rightarrow> bool" where
  "name_taken ts oid n = list_ex (\<lambda>x. team_name x = n \<and> team_id x \<noteq> oid) ts"

definition Team_insert :: "store \<Rightarrow> team \<Rightarrow> error + store" where
  "Team_insert st doc =
     (if list_ex (\<lambda>x. team_id x = team_id doc) (teams st)
      then Inl (DuplicateKeyError ''_id_'' (team_id doc))
      else if name_taken (teams st) (team_id doc) (team_name doc)
      then Inl (DuplicateKeyError ''name_1'' (team_name doc))
      else Inr (st\<lparr>teams := teams st @ [doc]\<rparr>))"

definition Team_save :: "store \<Rightarrow> team \<Rightarrow> error + store" where
  "Team_save st doc =
     (if name_taken (teams st) (team_id doc) (team_name doc)
      then Inl (DuplicateKeyError ''name_1'' (team_name doc))
      else Inr (st\<lparr>teams := map (\<lambda>x. if team_id x = team_id doc then doc else x) (teams st)\<rparr>))"

subsection \<open>POST /teams\<close>

text \<open>
  The creator of the new team is read from \<open>req.user._id\<close>; the path is set only when
  the value casts to an identifier. The test \<open>!name || !memberEmails\<close> is written as the
  negation of a conjunction.
\<close>

definition creator_of :: "jsobj \<Rightarrow> objectid option" where
  "creator_of req_user =
     (case js_prop req_user ''_id'' of
        Some (JStr s) \<Rightarrow> castObjectId s
      | _ \<Rightarrow> None)"

definition post_teams :: "store \<Rightarrow> jsobj \<Rightarrow> objectid \<Rightarrow> jsobj \<Rightarrow> outcome" where
  "post_teams st req_user new_id reqbody =
     (let name_in = js_prop reqbody ''name'';
          description_in = js_prop reqbody ''description'';
          memberEmails = js_prop reqbody ''memberEmails'';
          logged = (\<lambda>e. [LogMessage e, LogText ''Ankur Mandalllll''])
      in
      if \<not> (js_truthy name_in \<and> js_truthy memberEmails)
      then answer st (Response 400 (JsonText ''Name and member emails are required''))
      else
        (case User_find_email_in st memberEmails of
           Inl e \<Rightarrow> team_caught st e (logged e)
         | Inr found \<Rightarrow>
             if length_differs found memberEmails
             then answer st (Response 404 (JsonText ''Some members not found''))
             else
               (case creator_of req_user of
                  None \<Rightarrow> answer st (Response 400 (JsonText ''Created by cannot be blank''))
                | Some owner \<Rightarrow>
                    (case Team_document new_id name_in description_in (map user_id found) owner of
                       Inl e \<Rightarrow> team_caught st e (logged e)
                     | Inr doc \<Rightarrow>
                         (case Team_insert st doc of
                            Inl e \<Rightarrow> team_caught st e (logged e)
                          | Inr st' \<Rightarrow> answer st' (Response 201 (JsonTeam doc)))))))"

subsection \<open>authorizeTeamEdit and PUT /teams/:id\<close>

text \<open>
  \<open>createdBy.equals(other)\<close> of the driver's identifiers: false for \<open>undefined\<close> and
  \<open>null\<close>, and for a string exactly when it is this identifier in hexadecimal.
\<close>

fun ObjectId_equals :: "objectid \<Rightarrow> json option \<Rightarrow> bool" where
  "ObjectId_equals oid (Some (JStr s)) = (castObjectId s = Some oid)"
| "ObjectId_equals oid other = False"

definition authorizeTeamEdit :: "store \<Rightarrow> jsobj \<Rightarrow> string \<Rightarrow> verdict" where
  "authorizeTeamEdit st req_user ident =
     (case Team_findById st ident of
        Inl e \<Rightarrow> Reply (reply (team_caught st e []))
      | Inr None \<Rightarrow> Reply (Response 404 (JsonText ''Team not found''))
      | Inr (Some t) \<Rightarrow>
          if \<not> ObjectId_equals (createdBy t) (js_prop req_user ''_id'')
          then Reply (Response 403 (JsonText ''You are not authorized to edit this team''))
          else Next)"

text \<open>
  The assignments of the update handler: a truthy name and a truthy description replace
  the stored ones, resolved members replace the member list. \<open>save\<close> validates the
  paths that were set.
\<close>

definition set_team_name :: "json option \<Rightarrow> team \<Rightarrow> error + team" where
  "set_team_name name_in t =
     (if js_truthy name_in then
        (case castString name_in of
           Inr (Some n) \<Rightarrow>
             if valid_team_name n then Inr (t\<lparr>team_name := n\<rparr>) else Inl ValidationError
         | _ \<Rightarrow> Inl ValidationError)
      else Inr t)"

definition set_team_description :: "json option \<Rightarrow> team \<Rightarrow> error + team" where
  "set_team_description description_in t =
     (if js_truthy description_in then
        (case castString description_in of
           Inr d \<Rightarrow>
             if valid_team_description d then Inr (t\<lparr>team_description := d\<rparr>)
             else Inl ValidationError
         | Inl e \<Rightarrow> Inl ValidationError)
      else Inr t)"

definition set_team_members :: "user list option \<Rightarrow> team \<Rightarrow> team" where
  "set_team_members found t =
     (case found of None \<Rightarrow> t | Some us \<Rightarrow> t\<lparr>members := map user_id us\<rparr>)"

definition apply_team_patch ::
  "team \<Rightarrow> json option \<Rightarrow> json option \<Rightarrow> user list option \<Rightarrow> error + team" where
  "apply_team_patch t name_in description_in found =
     (case set_team_name name_in t of
        Inl e \<Rightarrow> Inl e
      | Inr t1 \<Rightarrow>
          (case set_team_description description_in t1 of
             Inl e \<Rightarrow> Inl e
           | Inr t2 \<Rightarrow> Inr (set_team_members found t2)))"

definition team_update_handler :: "store \<Rightarrow> string \<Rightarrow> jsobj \<Rightarrow> outcome" where
  "team_update_handler st ident reqbody =
     (let name_in = js_prop reqbody ''name'';
          description_in = js_prop reqbody ''description'';
          memberEmails = js_prop reqbody ''memberEmails''
      in
      if \<not> js_truthy name_in \<and> \<not> js_truthy description_in \<and> \<not> js_truthy memberEmails
      then answer st (Response 400 (JsonText ''Nothing to update''))
      else
        (case (if js_truthy memberEmails
               then map_sum (\<lambda>e. e) Some (User_find_email_in st memberEmails)
               else Inr None) of
           Inl e \<Rightarrow> team_caught st e []
         | Inr found \<Rightarrow>
             if (case found of None \<Rightarrow> False | Some us \<Rightarrow> length_differs us memberEmails)
             then answer st (Response 404 (JsonText ''Some members not found''))
             else
               (case Team_findById st ident of
                  Inl e \<Rightarrow> team_caught st e []
                | Inr None \<Rightarrow> answer st (Response 404 (JsonText ''Team not found''))
                | Inr (Some t) \<Rightarrow>
                    (case apply_team_patch t name_in description_in found of
                       Inl e \<Rightarrow> team_caught st e []
                     | Inr doc \<Rightarrow>
                         (case Team_save st doc of
                            Inl e \<Rightarrow> team_caught st e []
                          | Inr st' \<Rightarrow> answer st' (Response 200 (JsonTeam doc)))))))"

text \<open>The route: the guard first, the handler only after \<open>next()\<close>.\<close>

definition put_team :: "store \<Rightarrow> jsobj \<Rightarrow> string \<Rightarrow> jsobj \<Rightarrow> outcome" where
  "put_team st req_user ident reqbody =
     (case authorizeTeamEdit st req_user ident of
        Next \<Rightarrow> team_update_handler st ident reqbody
      | Reply r \<Rightarrow> answer st r
      | Throw e \<Rightarrow> answer st (express_error e))"

section \<open>A small store for the concrete cases\<close>

text \<open>
  The user, the task and the team of the repository's tests, with identifiers written
  out, and the payload that the update test sends.
\<close>

definition john :: user where
  "john = \<lparr>user_id = ''64b000000000000000000001'', firstName = ''John'', lastName = ''Doe'',
            email = ''john@example.com'', password = ''password123''\<rparr>"

definition test_task :: task where
  "test_task =
     \<lparr>task_id = ''64b0000000000000000000a1'', title = ''Test Task'',
      description = ''This is a test task'', status = ''open'',
      dueDate = Some (Date (Num 2025) (Num 0) (Num 1)), assignedTo = Some (user_id john),
      comments = []\<rparr>"

definition alpha :: team where
  "alpha =
     \<lparr>team_id = ''64b0000000000000000000b1'', team_name = ''Alpha'', team_description = None,
      members = [user_id john], createdBy = user_id john\<rparr>"

definition example_store :: store where
  "example_store = \<lparr>users = [john], tasks = [test_task], teams = [alpha]\<rparr>"

definition example_env :: env where
  "example_env =
     \<lparr>EMAIL_USER = Some ''tracker@example.com'', toLocaleString = (\<lambda>d. ''the due date'')\<rparr>"

definition updated_payload :: jsobj where
  "updated_payload =
     [(''title'', JStr ''Updated Task''), (''description'', JStr ''This is an updated task''),
      (''status'', JStr ''closed''), (''dueDate'', JStr ''02-02-2025'')]"

definition refused_transport :: transport where
  "refused_transport = (\<lambda>m. Inl ''ECONNREFUSED'')"

definition accepting_transport :: transport where
  "accepting_transport = (\<lambda>m. Inr ''250 OK'')"



definition no_status_payload :: jsobj where
  "no_status_payload =
     [(''title'', JStr ''Valid title''), (''description'', JStr ''A description''),
      (''dueDate'', JStr ''01-01-2025'')]"

definition beta_payload :: jsobj where
  "beta_payload = [(''name'', JStr ''Beta''), (''memberEmails'', JArr [JStr ''john@example.com''])]"

definition example_mail :: mailOptions where
  "example_mail =
     \<lparr>mail_from = Some ''tracker@example.com'', mail_to = Some ''john@example.com'',
      mail_subject = ''Task Assignment Notification'', mail_text = ''Hello John Doe'',
      mail_html = ''<p>Hello John Doe</p>''\<rparr>"

definition new_payload :: jsobj where
  "new_payload =
     [(''title'', JStr ''New Task''), (''description'', JStr ''This is a new task''),
      (''status'', JStr ''open''), (''dueDate'', JStr ''01-01-2025'')]"

definition assign_payload :: jsobj where
  "assign_payload = [(''assignedTo'', JStr ''64b000000000000000000001'')]"

section \<open>Facts about the validator\<close>

lemma TaskStatus_includes_cases:
  "TaskStatus_includes v \<longleftrightarrow> v = Some (JStr ''open'') \<or> v = Some (JStr ''closed'')"
proof (cases v)
  case None
  then show ?thesis by simp
next
  case (Some j)
  then show ?thesis by (cases j) (auto simp: TaskStatus_values_def)
qed

lemma trim_open: "js_trim ''open'' = ''open''"
  by (simp add: js_trim_def js_is_space_def)

lemma trim_closed: "js_trim ''closed'' = ''closed''"
  by (simp add: js_trim_def js_is_space_def)

lemma includes_not_empty: "TaskStatus_includes v \<Longrightarrow> \<not> isEmpty v"
  unfolding TaskStatus_includes_cases
  by (auto simp: trim_open trim_closed)

lemma js_trim_Nil: "js_trim [] = []"
  by (simp add: js_trim_def)


lemma check_dueDate_never_status_blank:
  "check_dueDate v \<noteq> Reply (Response 400 (Text ''Bad Request : Status cannot be blank''))"
  by (auto simp: check_dueDate_def split: option.splits json.splits list.splits)

text \<open>
  The answer "Status cannot be blank" is out of reach: it stands behind the membership
  test, and no member of the enumeration is blank.
\<close>

lemma validateTask_never_status_blank:
  "validateTask b \<noteq> Reply (Response 400 (Text ''Bad Request : Status cannot be blank''))"
  by (auto simp: validateTask_def Let_def includes_not_empty check_dueDate_never_status_blank
      invalid_status_message_def split: sum.splits)


lemma not_bad_date_parts:
  "\<not> bad_date_parts day month year \<Longrightarrow> \<exists>d m y. day = Num d \<and> month = Num m \<and> year = Num y"
  by (cases day; cases month; cases year) (auto simp: bad_date_parts_def)

lemma check_dueDate_Next_string:
  assumes "check_dueDate (Some (JStr du)) = Next" and "du \<noteq> []"
  shows "\<exists>d m y. parseDate du = Date (Num y) (Num (m - 1)) (Num d)"
proof -
  from assms obtain day month year where
    parts: "map js_Number (js_split CHR ''-'' du) = [day, month, year]"
    and ok: "\<not> bad_date_parts day month year"
    by (auto simp: check_dueDate_def split: list.splits if_splits)
  from ok obtain d m y where "day = Num d" "month = Num m" "year = Num y"
    using not_bad_date_parts by blast
  with parts show ?thesis
    by (simp add: parseDate_def part_def Let_def)
qed

text \<open>What acceptance by the validator means for a payload of four strings.\<close>

lemma validateTask_accepts_strings:
  assumes acc: "validateTask b = Next"
    and t: "js_prop b ''title'' = Some (JStr t)"
    and d: "js_prop b ''description'' = Some (JStr d)"
    and s: "js_prop b ''status'' = Some (JStr s)"
    and du: "js_prop b ''dueDate'' = Some (JStr du)"
  shows "valid_title t \<and> valid_description d \<and> valid_status s \<and> du \<noteq> [] \<and>
         valid_date (Some (parseDate du))"
proof -
  have ne: "\<not> isEmpty (Some (JStr t))" "\<not> isEmpty (Some (JStr d))" "\<not> isEmpty (Some (JStr du))"
    and len: "\<not> js_lt (Num (int (length t))) (Num 5)" "\<not> js_gt (Num (int (length t))) (Num 100)"
             "\<not> js_gt (Num (int (length d))) (Num 1000)"
    and inc: "TaskStatus_includes (Some (JStr s))"
    and chk: "check_dueDate (Some (JStr du)) = Next"
    using acc unfolding validateTask_def t d s du
    by (auto simp: Let_def split: if_splits)
  from ne have nn: "t \<noteq> []" "d \<noteq> []" "du \<noteq> []"
    by (auto simp: js_trim_Nil)
  from chk nn(3) obtain dd mm yy where "parseDate du = Date (Num yy) (Num (mm - 1)) (Num dd)"
    using check_dueDate_Next_string by blast
  then have "valid_date (Some (parseDate du))" by simp
  moreover have "valid_title t" using len nn by (simp add: valid_title_def js_gt_def)
  moreover have "valid_description d" using len nn by (simp add: valid_description_def js_gt_def)
  moreover have "valid_status s" using inc by (simp add: valid_status_def)
  ultimately show ?thesis using nn by simp
qed

lemma validated_Next: "validateTask b = Next \<Longrightarrow> validated st b h = h"
  by (simp add: validated_def)

lemma updated_payload_accepted: "validateTask updated_payload = Next"
  by code_simp

section \<open>Facts about the collections\<close>

lemma find_task_id: "find (\<lambda>d. task_id d = oid) ts = Some t \<Longrightarrow> task_id t = oid"
  by (induction ts) (auto split: if_splits)

lemma find_replace_task:
  assumes "find (\<lambda>d. task_id d = oid) ts = Some t" and "task_id t' = task_id t"
  shows "find (\<lambda>d. task_id d = oid) (replace_task t' ts) = Some t'"
  using assms
proof (induction ts)
  case Nil
  then show ?case by simp
next
  case (Cons x xs)
  then show ?case
    by (cases "task_id x = oid") (auto simp: replace_task_def)
qed

lemma replace_task_idem: "replace_task t (replace_task t ts) = replace_task t ts"
  by (induction ts) (auto simp: replace_task_def)

lemma Task_findById_Some:
  "Task_findById st ident = Inr (Some t) \<Longrightarrow>
     castObjectId ident = Some (task_id t) \<and>
     find (\<lambda>d. task_id d = task_id t) (tasks st) = Some t"
  by (auto simp: Task_findById_def findById_def split: option.splits dest: find_task_id)

lemma Task_findById_valid: "Task_findById st ident = Inr r \<Longrightarrow> ObjectId_isValid ident"
  by (auto simp: Task_findById_def findById_def castObjectId_def split: if_splits)

text \<open>After a document is replaced by one with the same identifier, a lookup finds the new one.\<close>

lemma Task_findById_replace:
  assumes "Task_findById st ident = Inr (Some t)" and "task_id t' = task_id t"
  shows "Task_findById (st\<lparr>tasks := replace_task t' (tasks st)\<rparr>) ident = Inr (Some t')"
proof -
  from assms(1) have c: "castObjectId ident = Some (task_id t)"
    and f: "find (\<lambda>d. task_id d = task_id t) (tasks st) = Some t"
    using Task_findById_Some by blast+
  from f assms(2) have "find (\<lambda>d. task_id d = task_id t) (replace_task t' (tasks st)) = Some t'"
    by (rule find_replace_task)
  with c show ?thesis by (simp add: Task_findById_def findById_def)
qed

lemma Task_document_strings:
  assumes "valid_title t" "valid_description d" "valid_status s" "valid_date due"
  shows "Task_document oid (Some (JStr t)) (Some (JStr d)) (Some (JStr s)) due a cs =
         Inr \<lparr>task_id = oid, title = t, description = d, status = s, dueDate = due,
              assignedTo = a, comments = cs\<rparr>"
  using assms by (simp add: Task_document_def)

lemma find_user_id: "find (\<lambda>u. user_id u = uid) us = Some u \<Longrightarrow> user_id u = uid"
  by (induction us) (auto split: if_splits)

lemma example_task_found:
  "Task_findById example_store ''64b0000000000000000000a1'' = Inr (Some test_task)"
  by code_simp

lemma cast_all_strings: "cast_all (map JStr es) = Inr (map Some es)"
  by (induction es) auto

lemma User_find_email_in_strings:
  "User_find_email_in st (Some (JArr (map JStr es))) =
     Inr (filter (\<lambda>u. email u \<in> set es) (users st))"
proof -
  have "Some x \<in> set (map Some es) \<longleftrightarrow> x \<in> set es" for x :: string
    by auto
  then show ?thesis
    by (simp add: User_find_email_in_def in_operand_def cast_all_strings del: set_map)
qed

text \<open>
  With unique emails, the users found for a list of emails are fewer than the list is
  long as soon as one of the emails belongs to nobody.
\<close>

lemma resolved_fewer:
  assumes d: "distinct (map email us)" and e: "e \<in> set es" and ne: "e \<notin> email ` set us"
  shows "length (filter (\<lambda>u. email u \<in> set es) us) < length es"
proof -
  let ?found = "filter (\<lambda>u. email u \<in> set es) us"
  have "distinct (map email ?found)" using d by (rule distinct_map_filter)
  then have "length ?found = card (email ` set ?found)"
    by (metis distinct_card length_map set_map)
  also have "email ` set ?found \<subseteq> set es - {e}" using ne by auto
  then have "card (email ` set ?found) \<le> card (set es - {e})"
    by (simp add: card_mono)
  also have "card (set es - {e}) < card (set es)"
    using e by (intro card_Diff1_less) simp_all
  also have "card (set es) \<le> length es" by (rule card_length)
  finally show ?thesis .
qed

section \<open>Facts about the handlers\<close>


text \<open>The transport shows in the console only.\<close>

lemma notify_update_transport:
  "reply (notify_update ev tr st t) = reply (notify_update ev tr' st t) \<and>
   db (notify_update ev tr st t) = db (notify_update ev tr' st t) \<and>
   sent (notify_update ev tr st t) = sent (notify_update ev tr' st t)"
  by (simp add: notify_update_def split: option.splits sum.splits)

lemma put_task_transport:
  "reply (put_task ev tr st i b) = reply (put_task ev tr' st i b) \<and>
   db (put_task ev tr st i b) = db (put_task ev tr' st i b) \<and>
   sent (put_task ev tr st i b) = sent (put_task ev tr' st i b)"
  using notify_update_transport[of ev tr _ _ tr']
  by (simp add: put_task_def validated_def split: verdict.splits sum.splits option.splits)

lemma put_task_assign_transport:
  "reply (put_task_assign ev tr st i b) = reply (put_task_assign ev tr' st i b) \<and>
   db (put_task_assign ev tr st i b) = db (put_task_assign ev tr' st i b) \<and>
   sent (put_task_assign ev tr st i b) = sent (put_task_assign ev tr' st i b)"
  by (simp add: put_task_assign_def split: sum.splits option.splits prod.splits)

text \<open>The update handler addresses its mail to the \<open>email\<close> of an identifier.\<close>

lemma notify_update_recipient:
  "list_all (\<lambda>m. mail_to m = None) (sent (notify_update ev tr st t))"
  by (simp add: notify_update_def answer_def caught_def populateEmailForAssignee_def Let_def
      split: option.splits sum.splits)

lemma put_task_recipient:
  "list_all (\<lambda>m. mail_to m = None) (sent (put_task ev tr st i b))"
  using notify_update_recipient[of ev tr]
  by (simp add: put_task_def validated_def answer_def caught_def
      split: verdict.splits sum.splits option.splits)

text \<open>The claims of the login token have no key \<open>_id\<close>.\<close>

lemma token_has_no_underscore_id: "js_prop (login_token_payload u iat) ''_id'' = None"
  by (simp add: login_token_payload_def js_prop_def)

lemma guard_never_passes_token:
  "authorizeTeamEdit st (login_token_payload u iat) ident \<noteq> Next"
  by (auto simp: authorizeTeamEdit_def token_has_no_underscore_id split: sum.splits option.splits)

lemma post_teams_token_store:
  "db (post_teams st (login_token_payload u iat) new_id b) = st"
  by (auto simp: post_teams_def Let_def creator_of_def token_has_no_underscore_id answer_def
      team_caught_def split: sum.splits option.splits)

section \<open>The claims of the specification\<close>

subsection \<open>Team Authorization Guard and Team Manager\<close>

text \<open>
  Claim C1. For every existing team and every authenticated identity, the guard of the
  team update passes if and only if the team's \<open>createdBy\<close> equals the identity's id:
  the owner's update is not rejected with Forbidden, any other identity is rejected with
  Forbidden, and a missing team yields NotFound before ownership is looked at.

  The identity of a request is the decoded login token. The token carries the user's
  identifier under the key \<open>id\<close>; the guard compares \<open>createdBy\<close> with \<open>req.user._id\<close>,
  which the token does not have. John created the team \<open>alpha\<close>, and with his own token
  his update of it is answered 403. No token passes the guard, whoever it belongs to
  (\<open>guard_never_passes_token\<close>).
\<close>

theorem owner_update_is_forbidden:
  "createdBy alpha = user_id john \<and>
   authorizeTeamEdit example_store (login_token_payload john 0) (team_id alpha) =
     Reply (Response 403 (JsonText ''You are not authorized to edit this team'')) \<and>
   put_team example_store (login_token_payload john 0) (team_id alpha)
       [(''name'', JStr ''Alpha Two'')] =
     answer example_store (Response 403 (JsonText ''You are not authorized to edit this team''))"
  by code_simp

text \<open>
  Claim C2. For every creation of a team by an authenticated identity, with a valid name
  and member emails that all belong to existing users, a new team is stored whose
  \<open>createdBy\<close> is the caller's id, and the stored team is returned.

  The handler reads the creator from \<open>req.user._id\<close> as well. With the decoded token as
  identity the path stays unset, and the handler answers 400 before it saves anything:
  John, a registered user, names himself as the only member of a new team and gets
  "Created by cannot be blank". With a token as identity no request changes the store
  (\<open>post_teams_token_store\<close>).
\<close>

theorem team_create_refuses_token_identity:
  "post_teams example_store (login_token_payload john 0) ''64b0000000000000000000b2''
       beta_payload =
     answer example_store (Response 400 (JsonText ''Created by cannot be blank''))"
  by code_simp

text \<open>
  Claim C8. For every creation of a team whose \<open>memberEmails\<close> contains at least one email
  that belongs to no existing user, the operation fails with NotFound ("Some members not
  found") and creates no team; the store is unchanged.

  As stated the claim fails when the name is missing: the handler tests the name first
  and answers 400, whatever the emails are.
\<close>

theorem unknown_member_without_name_is_400:
  "''nobody@example.com'' \<notin> email ` set (users example_store) \<and>
   post_teams example_store (login_token_payload john 0) ''64b0000000000000000000b2''
       [(''memberEmails'', JArr [JStr ''nobody@example.com''])] =
     answer example_store (Response 400 (JsonText ''Name and member emails are required''))"
  by (simp add: post_teams_def Let_def js_prop_def example_store_def john_def)

text \<open>
  Claim C8, amended. In a store whose users have unique emails, every creation of a team
  with a non-empty name whose \<open>memberEmails\<close> is a list of strings, one of which is the
  email of no user, is answered 404 "Some members not found" and leaves the store as it
  was; with an empty or missing name the same request is answered 400 instead, and the
  store is unchanged as well.
\<close>

theorem unknown_member_fails_with_404:
  assumes uniq: "distinct (map email (users st))"
    and emails: "js_prop b ''memberEmails'' = Some (JArr (map JStr es))"
    and unknown: "e \<in> set es" "e \<notin> email ` set (users st)"
  shows "(js_truthy (js_prop b ''name'') \<longrightarrow>
            post_teams st req_user new_id b =
              answer st (Response 404 (JsonText ''Some members not found''))) \<and>
         (\<not> js_truthy (js_prop b ''name'') \<longrightarrow>
            post_teams st req_user new_id b =
              answer st (Response 400 (JsonText ''Name and member emails are required'')))"
proof -
  have "length (filter (\<lambda>u. email u \<in> set es) (users st)) < length es"
    using uniq unknown by (rule resolved_fewer)
  then have "length_differs (filter (\<lambda>u. email u \<in> set es) (users st))
               (Some (JArr (map JStr es)))"
    by (simp add: length_differs_def length_of_def)
  then show ?thesis
    by (simp add: post_teams_def Let_def emails User_find_email_in_strings)
qed

text \<open>
  The amended claim at work: John exists, nobody@example.com does not, the team has a
  name, and the request is answered 404 with the store untouched.
\<close>

theorem unknown_member_fails_with_404_witness:
  "post_teams example_store (login_token_payload john 0) ''64b0000000000000000000b2''
       [(''name'', JStr ''Beta''),
        (''memberEmails'', JArr [JStr ''john@example.com'', JStr ''nobody@example.com''])] =
     answer example_store (Response 404 (JsonText ''Some members not found''))"
proof -
  let ?b = "[(''name'', JStr ''Beta''),
             (''memberEmails'', JArr [JStr ''john@example.com'', JStr ''nobody@example.com''])]"
  have uniq: "distinct (map email (users example_store))"
    by (simp add: example_store_def)
  have emails: "js_prop ?b ''memberEmails'' =
                  Some (JArr (map JStr [''john@example.com'', ''nobody@example.com'']))"
    by (simp add: js_prop_def)
  have e1: "''nobody@example.com'' \<in> set [''john@example.com'', ''nobody@example.com'']"
    by simp
  have e2: "''nobody@example.com'' \<notin> email ` set (users example_store)"
    by (simp add: example_store_def john_def)
  have name: "js_truthy (js_prop ?b ''name'')"
    by (simp add: js_prop_def)
  from unknown_member_fails_with_404[OF uniq emails e1 e2, of "login_token_payload john 0"
      "''64b0000000000000000000b2''"] name
  show ?thesis by blast
qed

subsection \<open>Task Validator\<close>

text \<open>
  Claim C4. The validator rejects with exactly the first violated rule in the order
  title missing, title length, description missing, description length, status missing,
  status invalid, due date missing, due date malformed; in particular a payload with a
  valid title and description whose status is absent or empty is answered "status
  missing", not "status invalid".

  In \<open>validateTask\<close> the membership test of the status comes first and the test for a
  blank status second. A payload without a status, and one whose status is the empty
  string, are both answered with the message of the invalid status; the message of the
  blank status is never sent (\<open>validateTask_never_status_blank\<close>).
\<close>

theorem missing_status_is_reported_invalid:
  "validateTask no_status_payload = Reply (Response 400 (Text invalid_status_message)) \<and>
   validateTask ((''status'', JStr []) # no_status_payload) =
     Reply (Response 400 (Text invalid_status_message)) \<and>
   invalid_status_message \<noteq> ''Bad Request : Status cannot be blank''"
  by (simp add: validateTask_def no_status_payload_def js_prop_def js_trim_def js_is_space_def
      js_gt_def invalid_status_message_def TaskStatus_values_def)

subsection \<open>Task Lifecycle Manager: Update\<close>




text \<open>
  Claim C5. For every successful update of a task whose resulting assignee is non-null,
  exactly one "updated" notification payload is built and handed to the send
  collaborator, and its recipient is the email of the assignee, its bodies naming the
  title of the task.

  The update handler passes \<open>updatedTask.assignedTo\<close>, the stored identifier, where the
  assign handler passes the user document. An identifier has no \<open>email\<close>: the stored test
  task is assigned to John, its update succeeds and hands over exactly one payload, and
  the recipient of that payload is \<open>undefined\<close>, not john@example.com. This holds for
  every update that sends a mail (\<open>put_task_recipient\<close>).
\<close>

theorem update_mail_has_no_recipient:
  "assignedTo test_task = Some (user_id john) \<and> email john = ''john@example.com'' \<and>
   http_status (reply (put_task example_env tr example_store ''64b0000000000000000000a1''
                         updated_payload)) = SUCCESS \<and>
   map mail_to (sent (put_task example_env tr example_store ''64b0000000000000000000a1''
                         updated_payload)) = [None] \<and>
   map mail_subject (sent (put_task example_env tr example_store ''64b0000000000000000000a1''
                         updated_payload)) = [''Task Update Notification'']"
  by (simp add: put_task_def validated_def updated_payload_accepted) code_simp

subsection \<open>Task Lifecycle Manager: Create\<close>



subsection \<open>Task Lifecycle Manager: Complete\<close>

text \<open>
  Claim C6. Complete is idempotent: for every well-formed id of an existing task it sets
  the status to closed whatever the status was, and a second call on the same id yields
  status closed again, with no error; a malformed id fails with BadRequest and an absent
  task with NotFound.

  For a task \<open>t\<close> that the lookup finds, the first call answers 200 with \<open>t\<close> closed and
  stores it; the second call answers the same and leaves the store as the first call
  left it.
\<close>

theorem complete_is_idempotent:
  "(\<not> ObjectId_isValid taskId \<longrightarrow>
      patch_task_complete st taskId = answer st (Response 400 (Text ''Invalid task ID''))) \<and>
   (ObjectId_isValid taskId \<and> Task_findById st taskId = Inr None \<longrightarrow>
      patch_task_complete st taskId = answer st (Response 404 (Text ''Task not found''))) \<and>
   (\<forall>t. Task_findById st taskId = Inr (Some t) \<longrightarrow>
      (let closed = t\<lparr>status := ''closed''\<rparr>;
           once = patch_task_complete st taskId;
           twice = patch_task_complete (db once) taskId
       in reply once = Response 200 (JsonTask closed) \<and>
          Task_findById (db once) taskId = Inr (Some closed) \<and>
          reply twice = Response 200 (JsonTask closed) \<and>
          db twice = db once))"
proof (intro conjI allI impI)
  assume "\<not> ObjectId_isValid taskId"
  then show "patch_task_complete st taskId = answer st (Response 400 (Text ''Invalid task ID''))"
    by (simp add: patch_task_complete_def)
next
  assume "ObjectId_isValid taskId \<and> Task_findById st taskId = Inr None"
  then show "patch_task_complete st taskId = answer st (Response 404 (Text ''Task not found''))"
    by (simp add: patch_task_complete_def Task_findByIdAndUpdate_def valid_status_def
        TaskStatus_values_def)
next
  fix t
  assume found: "Task_findById st taskId = Inr (Some t)"
  define closed where "closed = t\<lparr>status := ''closed''\<rparr>"
  define st1 where "st1 = st\<lparr>tasks := replace_task closed (tasks st)\<rparr>"
  have valid: "ObjectId_isValid taskId" using found by (rule Task_findById_valid)
  have once: "patch_task_complete st taskId = answer st1 (Response 200 (JsonTask closed))"
    using found valid
    by (simp add: patch_task_complete_def Task_findByIdAndUpdate_def valid_status_def
        TaskStatus_values_def closed_def st1_def)
  have found1: "Task_findById st1 taskId = Inr (Some closed)"
    unfolding st1_def using found by (rule Task_findById_replace) (simp add: closed_def)
  have again: "closed\<lparr>status := ''closed''\<rparr> = closed" by (simp add: closed_def)
  have st1_again: "st1\<lparr>tasks := replace_task closed (tasks st1)\<rparr> = st1"
    by (simp add: st1_def replace_task_idem)
  have twice: "patch_task_complete st1 taskId = answer st1 (Response 200 (JsonTask closed))"
    using found1 valid
    by (simp add: patch_task_complete_def Task_findByIdAndUpdate_def valid_status_def
        TaskStatus_values_def again st1_again)
  show "let closed = t\<lparr>status := ''closed''\<rparr>;
           once = patch_task_complete st taskId;
           twice = patch_task_complete (db once) taskId
       in reply once = Response 200 (JsonTask closed) \<and>
          Task_findById (db once) taskId = Inr (Some closed) \<and>
          reply twice = Response 200 (JsonTask closed) \<and>
          db twice = db once"
    using once twice found1 by (simp add: Let_def closed_def[symmetric] answer_def)
qed

text \<open>
  On the example store: the open test task is closed by the first call and by the second,
  an id that is no ObjectId is answered 400, and a well-formed id of no task 404.
\<close>

theorem complete_is_idempotent_witness:
  "reply (patch_task_complete example_store ''64b0000000000000000000a1'') =
     Response 200 (JsonTask (test_task\<lparr>status := ''closed''\<rparr>)) \<and>
   reply (patch_task_complete
            (db (patch_task_complete example_store ''64b0000000000000000000a1''))
            ''64b0000000000000000000a1'') =
     Response 200 (JsonTask (test_task\<lparr>status := ''closed''\<rparr>)) \<and>
   patch_task_complete example_store ''task-1'' =
     answer example_store (Response 400 (Text ''Invalid task ID'')) \<and>
   patch_task_complete example_store ''64b0000000000000000000ff'' =
     answer example_store (Response 404 (Text ''Task not found''))"
proof -
  have malformed: "\<not> ObjectId_isValid ''task-1''"
    by (simp add: ObjectId_isValid_def)
  have absent: "ObjectId_isValid ''64b0000000000000000000ff'' \<and>
                Task_findById example_store ''64b0000000000000000000ff'' = Inr None"
    by code_simp
  from complete_is_idempotent[of "''64b0000000000000000000a1''" example_store]
    example_task_found
  have "reply (patch_task_complete example_store ''64b0000000000000000000a1'') =
          Response 200 (JsonTask (test_task\<lparr>status := ''closed''\<rparr>)) \<and>
        reply (patch_task_complete
                 (db (patch_task_complete example_store ''64b0000000000000000000a1''))
                 ''64b0000000000000000000a1'') =
          Response 200 (JsonTask (test_task\<lparr>status := ''closed''\<rparr>))"
    by (simp add: Let_def)
  moreover from complete_is_idempotent[of "''task-1''" example_store] malformed
  have "patch_task_complete example_store ''task-1'' =
          answer example_store (Response 400 (Text ''Invalid task ID''))"
    by blast
  moreover from complete_is_idempotent[of "''64b0000000000000000000ff''" example_store] absent
  have "patch_task_complete example_store ''64b0000000000000000000ff'' =
          answer example_store (Response 404 (Text ''Task not found''))"
    by blast
  ultimately show ?thesis by simp
qed

subsection \<open>Notification Dispatcher\<close>

text \<open>
  Claim C7. For every notification triggered by an update or an assignment of a task, a
  failure raised by the external send collaborator is caught and discarded inside the
  dispatch layer, logged only, and never changes the result of the surrounding
  operation that the caller sees.

  When the transport fails, \<open>sendEmail\<close> yields one line of console output and nothing
  else. The response, the store and the payloads handed over by the update and by the
  assign handler are the same for any two behaviours of the transport.
\<close>

theorem send_failures_are_absorbed:
  "(tr mail = Inl err \<longrightarrow> sendEmail tr mail = [LogEmailError err]) \<and>
   reply (put_task ev tr st i b) = reply (put_task ev tr' st i b) \<and>
   db (put_task ev tr st i b) = db (put_task ev tr' st i b) \<and>
   sent (put_task ev tr st i b) = sent (put_task ev tr' st i b) \<and>
   reply (put_task_assign ev tr st i b) = reply (put_task_assign ev tr' st i b) \<and>
   db (put_task_assign ev tr st i b) = db (put_task_assign ev tr' st i b) \<and>
   sent (put_task_assign ev tr st i b) = sent (put_task_assign ev tr' st i b)"
  using put_task_transport[of ev tr st i b tr'] put_task_assign_transport[of ev tr st i b tr']
  by (simp add: sendEmail_def)

text \<open>
  The update of the assigned test task with a transport that refuses every mail: the
  refusal is logged, and the caller sees what a transport that accepts would show.
\<close>

theorem send_failures_are_absorbed_witness:
  "sendEmail refused_transport example_mail = [LogEmailError ''ECONNREFUSED''] \<and>
   reply (put_task example_env refused_transport example_store ''64b0000000000000000000a1''
            updated_payload) =
   reply (put_task example_env accepting_transport example_store ''64b0000000000000000000a1''
            updated_payload) \<and>
   db (put_task example_env refused_transport example_store ''64b0000000000000000000a1''
            updated_payload) =
   db (put_task example_env accepting_transport example_store ''64b0000000000000000000a1''
            updated_payload)"
proof -
  have fails: "refused_transport example_mail = Inl ''ECONNREFUSED''"
    by (simp add: refused_transport_def)
  from send_failures_are_absorbed[of refused_transport example_mail "''ECONNREFUSED''" example_env
      example_store "''64b0000000000000000000a1''" updated_payload accepting_transport] fails
  show ?thesis by blast
qed

subsection \<open>Task Lifecycle Manager: List\<close>

text \<open>
  Claim C10. For every list request carrying a status filter that is not one of open and
  closed, the operation fails with BadRequest ("Invalid task status") before any query
  of the store; only an absent filter or one of the two enumerated values ever reaches
  the store.

  As stated the claim fails for the empty status, as in \<open>?status=\<close>: it is none of the
  two values, and the handler treats it as no filter and answers with all tasks.
\<close>

theorem empty_status_filter_lists_all:
  "[] \<notin> set TaskStatus_values \<and>
   get_tasks example_store (Some (JStr [])) =
     answer example_store (Response 200 (JsonTasks [test_task]))"
  by (simp add: TaskStatus_values_def get_tasks_def tasks_query_def Task_find_def
      example_store_def)

text \<open>
  Claim C10, amended. For every list request whose status filter is truthy (a non-empty
  string, for one) and is not one of open and closed, the operation fails with 400
  "Invalid task status" before the store is queried; a falsy filter is treated as no
  filter; and the query that reaches the store has no filter or one of the two values.
\<close>

theorem invalid_status_filter_is_rejected:
  "(js_truthy status_in \<and> status_in \<noteq> Some (JStr ''open'') \<and>
    status_in \<noteq> Some (JStr ''closed'') \<longrightarrow>
      tasks_query status_in = Inl (Response 400 (Text ''Invalid task status'')) \<and>
      get_tasks st status_in = answer st (Response 400 (Text ''Invalid task status''))) \<and>
   (\<not> js_truthy status_in \<longrightarrow> tasks_query status_in = Inr AllTasks) \<and>
   (\<forall>q. tasks_query status_in = Inr q \<longrightarrow>
      q = AllTasks \<or> q = WithStatus (JStr ''open'') \<or> q = WithStatus (JStr ''closed''))"
  by (auto simp: tasks_query_def get_tasks_def TaskStatus_includes_cases
      split: if_splits option.splits)

text \<open>
  The status "pending" is answered 400; the status "open" reaches the store as the
  filter it is.
\<close>

theorem invalid_status_filter_is_rejected_witness:
  "get_tasks example_store (Some (JStr ''pending'')) =
     answer example_store (Response 400 (Text ''Invalid task status'')) \<and>
   tasks_query (Some (JStr ''open'')) = Inr (WithStatus (JStr ''open'')) \<and>
   tasks_query None = Inr AllTasks"
proof -
  have pending: "js_truthy (Some (JStr ''pending'')) \<and>
                 Some (JStr ''pending'') \<noteq> Some (JStr ''open'') \<and>
                 Some (JStr ''pending'') \<noteq> Some (JStr ''closed'')"
    by simp
  have "open": "tasks_query (Some (JStr ''open'')) = Inr (WithStatus (JStr ''open''))"
    by (simp add: tasks_query_def TaskStatus_values_def)
  have absent: "\<not> js_truthy None"
    by simp
  from invalid_status_filter_is_rejected[of "Some (JStr ''pending'')" example_store] pending
  have "get_tasks example_store (Some (JStr ''pending'')) =
          answer example_store (Response 400 (Text ''Invalid task status''))"
    by blast
  moreover from invalid_status_filter_is_rejected[of None example_store] absent
  have "tasks_query None = Inr AllTasks"
    by blast
  ultimately show ?thesis using "open" by simp
qed

section \<open>Further properties of the Task Lifecycle Manager\<close>

text \<open>
  Property X1. For every valid payload (title of 5 to 100 characters, description of 1 to
  1000, status open or closed, a well-formed due date), given as four strings, whose
  title is not yet stored, Create succeeds: it answers 201 with a task whose fields are
  the payload's, the due date as parsed, without assignee and without comments, and
  that task is appended to the store.
\<close>

theorem create_stores_the_payload:
  assumes acc: "validateTask b = Next"
    and t: "js_prop b ''title'' = Some (JStr t)"
    and d: "js_prop b ''description'' = Some (JStr d)"
    and s: "js_prop b ''status'' = Some (JStr s)"
    and du: "js_prop b ''dueDate'' = Some (JStr du)"
    and unused: "t \<notin> title ` set (tasks st)"
    and fresh: "new_id \<notin> task_id ` set (tasks st)"
  shows "post_tasks st new_id b =
           answer (st\<lparr>tasks := tasks st @
                      [\<lparr>task_id = new_id, title = t, description = d, status = s,
                        dueDate = Some (parseDate du), assignedTo = None, comments = []\<rparr>]\<rparr>)
             (Response CREATED
                (JsonTask \<lparr>task_id = new_id, title = t, description = d, status = s,
                        dueDate = Some (parseDate du), assignedTo = None, comments = []\<rparr>))"
proof -
  from validateTask_accepts_strings[OF acc t d s du]
  have v: "valid_title t" "valid_description d" "valid_status s" "du \<noteq> []"
    "valid_date (Some (parseDate du))" by simp_all
  have due: "parsedDueDate (Some (JStr du)) = Inr (Some (parseDate du))"
    using v(4) by (simp add: parsedDueDate_def)
  have free: "\<not> title_taken (tasks st) new_id t"
    using unused by (auto simp: title_taken_def list_ex_iff)
  have new: "\<not> list_ex (\<lambda>x. task_id x = new_id) (tasks st)"
    using fresh by (auto simp: list_ex_iff)
  show ?thesis
    unfolding post_tasks_def validated_Next[OF acc] t d s du due
    by (simp add: Task_document_strings[OF v(1,2,3,5)] Task_insert_def free new)
qed

text \<open>The payload of the creation test is stored as the second task of the example store.\<close>

theorem create_stores_the_payload_witness:
  "reply (post_tasks example_store ''64b0000000000000000000a2'' new_payload) =
     Response 201
       (JsonTask \<lparr>task_id = ''64b0000000000000000000a2'', title = ''New Task'',
          description = ''This is a new task'', status = ''open'',
          dueDate = Some (Date (Num 2025) (Num 0) (Num 1)), assignedTo = None,
          comments = []\<rparr>) \<and>
   length (tasks (db (post_tasks example_store ''64b0000000000000000000a2'' new_payload))) = 2"
proof -
  have acc: "validateTask new_payload = Next"
    by code_simp
  have fields: "js_prop new_payload ''title'' = Some (JStr ''New Task'')"
    "js_prop new_payload ''description'' = Some (JStr ''This is a new task'')"
    "js_prop new_payload ''status'' = Some (JStr ''open'')"
    "js_prop new_payload ''dueDate'' = Some (JStr ''01-01-2025'')"
    by (simp_all add: new_payload_def js_prop_def)
  have unused: "''New Task'' \<notin> title ` set (tasks example_store)"
    by (simp add: example_store_def test_task_def)
  have fresh: "''64b0000000000000000000a2'' \<notin> task_id ` set (tasks example_store)"
    by (simp add: example_store_def test_task_def)
  have date: "parseDate ''01-01-2025'' = Date (Num 2025) (Num 0) (Num 1)"
    by code_simp
  from create_stores_the_payload[OF acc fields unused fresh]
  show ?thesis by (simp add: answer_def CREATED_def date example_store_def)
qed

text \<open>
  Property X2. Assign fails with 400 "User not found", the store unchanged, when the
  well-formed \<open>assignedTo\<close> names no user. When it names a user and the task exists and
  has a due date, Assign stores the assignee, answers 200 with the updated task, and
  hands exactly one "assigned" notification to the send collaborator, addressed to the
  email of that user. (The mail is built from the due date of the task: on a task
  without one, building it fails after the assignment has been written.)
\<close>

theorem assign_notifies_the_assignee:
  assumes who: "js_prop b ''assignedTo'' = Some (JStr a)"
    and cast: "castObjectId a = Some uid"
  shows "(find (\<lambda>u. user_id u = uid) (users st) = None \<longrightarrow>
            put_task_assign ev tr st taskId b =
              answer st (Response 400 (JsonError ''User not found''))) \<and>
         (\<forall>u t due.
            find (\<lambda>u. user_id u = uid) (users st) = Some u \<and>
            Task_findById st taskId = Inr (Some t) \<and> dueDate t = Some due \<longrightarrow>
            (let out = put_task_assign ev tr st taskId b;
                 assigned = t\<lparr>assignedTo := Some uid\<rparr>
             in reply out = Response 200 (JsonTask assigned) \<and>
                Task_findById (db out) taskId = Inr (Some assigned) \<and>
                map mail_to (sent out) = [Some (email u)] \<and>
                map mail_subject (sent out) = [''Task Assignment Notification'']))"
proof (intro conjI allI impI)
  assume "find (\<lambda>u. user_id u = uid) (users st) = None"
  then show "put_task_assign ev tr st taskId b =
              answer st (Response 400 (JsonError ''User not found''))"
    by (simp add: put_task_assign_def userExists_def who cast)
next
  fix u t due
  assume h: "find (\<lambda>u. user_id u = uid) (users st) = Some u \<and>
            Task_findById st taskId = Inr (Some t) \<and> dueDate t = Some due"
  define assigned where "assigned = t\<lparr>assignedTo := Some uid\<rparr>"
  define st1 where "st1 = st\<lparr>tasks := replace_task assigned (tasks st)\<rparr>"
  from h have u: "find (\<lambda>u. user_id u = uid) (users st) = Some u"
    and t: "Task_findById st taskId = Inr (Some t)" and due: "dueDate t = Some due"
    by simp_all
  have due1: "dueDate assigned = Some due" by (simp add: assigned_def due)
  obtain m where m: "populateEmailForAssignee ev assigned (UserDocument u) False = Inr m"
    and to: "mail_to m = Some (email u)"
    and subj: "mail_subject m = ''Task Assignment Notification''"
    by (simp add: populateEmailForAssignee_def due1 Let_def)
  have out: "put_task_assign ev tr st taskId b =
      \<lparr>db = st1, reply = Response 200 (JsonTask assigned), sent = [m],
       console = LogMail m # sendEmail tr m\<rparr>"
    by (simp add: put_task_assign_def userExists_def taskExists_def who cast u t
        Task_findByIdAndUpdate_def assigned_def[symmetric] st1_def[symmetric] m)
  have stored: "Task_findById st1 taskId = Inr (Some assigned)"
    unfolding st1_def using t by (rule Task_findById_replace) (simp add: assigned_def)
  show "let out = put_task_assign ev tr st taskId b;
                 assigned = t\<lparr>assignedTo := Some uid\<rparr>
             in reply out = Response 200 (JsonTask assigned) \<and>
                Task_findById (db out) taskId = Inr (Some assigned) \<and>
                map mail_to (sent out) = [Some (email u)] \<and>
                map mail_subject (sent out) = [''Task Assignment Notification'']"
    unfolding Let_def assigned_def[symmetric] out by (simp add: stored to subj)
qed

text \<open>The test task is assigned to John, and the one mail goes to john@example.com.\<close>

theorem assign_notifies_the_assignee_witness:
  "http_status (reply (put_task_assign example_env accepting_transport example_store
       ''64b0000000000000000000a1'' assign_payload)) = 200 \<and>
   map mail_to (sent (put_task_assign example_env accepting_transport example_store
       ''64b0000000000000000000a1'' assign_payload)) = [Some ''john@example.com'']"
proof -
  have who: "js_prop assign_payload ''assignedTo'' = Some (JStr ''64b000000000000000000001'')"
    by (simp add: assign_payload_def js_prop_def)
  have cast: "castObjectId ''64b000000000000000000001'' = Some ''64b000000000000000000001''"
    by code_simp
  have u: "find (\<lambda>u. user_id u = ''64b000000000000000000001'') (users example_store) = Some john"
    by (simp add: example_store_def john_def)
  have due: "dueDate test_task = Some (Date (Num 2025) (Num 0) (Num 1))"
    by (simp add: test_task_def)
  from assign_notifies_the_assignee[OF who cast, of example_store example_env
      accepting_transport "''64b0000000000000000000a1''"] u example_task_found due
  show ?thesis by (simp add: Let_def john_def)
qed

end
